theory Spec2Isabelle
  imports Complex_Main
begin

section \<open>Python values\<close>

text \<open>
  A Python \<open>str\<close> is a sequence of Unicode code points; it is modelled as a list of
  natural numbers, so that \<open>strip\<close> and the regular expression classes see the same
  characters as the interpreter does.  ASCII literals of the source are written through
  \<open>ascii\<close>, the Korean messages as their code points.
\<close>

type_synonym pystr = "nat list"

abbreviation ascii :: "string \<Rightarrow> pystr" where
  "ascii s \<equiv> map of_char s"

text \<open>
  What the code takes from the interpreter and is not written out here is a parameter:
  how a float is printed inside an f-string, the decimal value of a code point of Unicode
  category Nd (what \<open>\d\<close> matches and \<open>int\<close> reads), the largest number of digits
  \<open>int\<close> converts (\<open>sys.get_int_max_str_digits()\<close>, 4300 unless configured, 0 for no
  limit), and the text of the \<open>ValueError\<close> it raises beyond that.
\<close>

record py_builtins =
  format_seconds :: "real \<Rightarrow> pystr"
  unicode_decimal :: "nat \<Rightarrow> nat option"
  int_max_str_digits :: nat
  int_error_str :: "pystr \<Rightarrow> pystr"

text \<open>\<open>str.isspace\<close> of a single code point; \<open>\s\<close> of \<open>re\<close> is the same class.\<close>

definition py_isspace :: "nat \<Rightarrow> bool" where
  "py_isspace c =
     ((9 \<le> c \<and> c \<le> 13) \<or> (28 \<le> c \<and> c \<le> 32) \<or> c = 133 \<or> c = 160 \<or> c = 5760
      \<or> (8192 \<le> c \<and> c \<le> 8202) \<or> c = 8232 \<or> c = 8233 \<or> c = 8239 \<or> c = 8287
      \<or> c = 12288)"

text \<open>\<open>s.strip()\<close> without argument.\<close>

definition strip :: "pystr \<Rightarrow> pystr" where
  "strip s = rev (dropWhile py_isspace (rev (dropWhile py_isspace s)))"

definition startswith :: "pystr \<Rightarrow> pystr \<Rightarrow> bool" where
  "startswith s p = (take (length p) s = p)"

text \<open>\<open>sub in s\<close> on strings.\<close>

fun py_in :: "pystr \<Rightarrow> pystr \<Rightarrow> bool" where
  "py_in sub [] = (sub = [])"
| "py_in sub (c # cs) = (startswith (c # cs) sub \<or> py_in sub cs)"

text \<open>
  Writing or encoding a string as UTF-8 raises \<open>UnicodeEncodeError\<close> exactly when it
  holds a surrogate code point.
\<close>

definition utf8_encodable :: "pystr \<Rightarrow> bool" where
  "utf8_encodable s = list_all (\<lambda>c. \<not> (55296 \<le> c \<and> c \<le> 57343)) s"

section \<open>Peak memory from the statistics text\<close>

text \<open>
  \<open>re.search(r"Maximum resident set size \(kbytes\):\s*(\d+)", time_stats)\<close>: the
  leftmost position where the label is followed by white space and at least one decimal
  digit.  \<open>\s*\<close> is greedy and gives characters back one at a time; \<open>\d+\<close> then
  takes the longest run of digits.  The result is group 1.
\<close>

definition MEM_LABEL :: pystr where
  "MEM_LABEL = ascii ''Maximum resident set size (kbytes):''"

definition is_digit :: "py_builtins \<Rightarrow> nat \<Rightarrow> bool" where
  "is_digit py c = (unicode_decimal py c \<noteq> None)"

definition digits_at :: "py_builtins \<Rightarrow> nat \<Rightarrow> pystr \<Rightarrow> pystr option" where
  "digits_at py k r =
     (let ds = takeWhile (is_digit py) (drop k r) in if ds = [] then None else Some ds)"

fun backtrack :: "py_builtins \<Rightarrow> nat \<Rightarrow> pystr \<Rightarrow> pystr option" where
  "backtrack py 0 r = digits_at py 0 r"
| "backtrack py (Suc k) r =
     (case digits_at py (Suc k) r of Some g \<Rightarrow> Some g | None \<Rightarrow> backtrack py k r)"

definition match_at :: "py_builtins \<Rightarrow> pystr \<Rightarrow> pystr option" where
  "match_at py s =
     (if startswith s MEM_LABEL
      then (let r = drop (length MEM_LABEL) s
            in backtrack py (length (takeWhile py_isspace r)) r)
      else None)"

fun re_search :: "py_builtins \<Rightarrow> pystr \<Rightarrow> pystr option" where
  "re_search py [] = None"
| "re_search py (c # cs) =
     (case match_at py (c # cs) of Some g \<Rightarrow> Some g | None \<Rightarrow> re_search py cs)"

text \<open>
  The labelled line, in the words of the specification: somewhere in the text the label is
  followed by white space and then by the digits \<open>ds\<close>.
\<close>

definition memory_line :: "py_builtins \<Rightarrow> pystr \<Rightarrow> pystr \<Rightarrow> bool" where
  "memory_line py s ds \<longleftrightarrow>
     (\<exists>pre ws rest. s = pre @ MEM_LABEL @ ws @ ds @ rest
        \<and> list_all py_isspace ws \<and> ds \<noteq> [] \<and> list_all (is_digit py) ds)"

text \<open>
  \<open>int(mem_match.group(1))\<close>; the group holds decimal digits only.  With more digits than
  the interpreter's limit \<open>int\<close> raises \<open>ValueError\<close>, which is the value \<open>None\<close>.
\<close>

definition digit_val :: "py_builtins \<Rightarrow> nat \<Rightarrow> int" where
  "digit_val py c = (case unicode_decimal py c of Some d \<Rightarrow> int d | None \<Rightarrow> 0)"

definition py_int :: "py_builtins \<Rightarrow> pystr \<Rightarrow> int option" where
  "py_int py ds =
     (if int_max_str_digits py \<noteq> 0 \<and> int_max_str_digits py < length ds then None
      else Some (foldl (\<lambda>acc c. 10 * acc + digit_val py c) 0 ds))"

section \<open>\<open>score_code\<close>: one sandboxed run\<close>

text \<open>The dictionary \<open>score_code\<close> returns.\<close>

record exec_result =
  success :: bool
  stdout :: pystr
  stderr :: pystr
  max_memory_kb :: "int option"
  elapsed_time :: real
  error :: "pystr option"

text \<open>
  Opening and reading one of the files of the workspace: it is not there
  (\<open>FileNotFoundError\<close>), it is read, or reading raises another exception (the bytes are
  not UTF-8, the path is a directory, permission is denied) with that \<open>str(e)\<close>.
\<close>

datatype file_read = Absent | Text pystr | Unreadable pystr

text \<open>
  What the world does with one run.  Every constructor that reaches a result carries the
  value of \<open>time.monotonic() - start_time\<close> that ends up in it.
  \<^item> \<open>Exited\<close>: \<open>communicate\<close> came back before the deadline with this return code; then
    what reading the stdout, stderr and statistics files gives, and whether
    \<open>/var/run/docker.sock\<close> exists.
  \<^item> \<open>DeadlineElapsed\<close>: \<open>asyncio.wait_for\<close> raised \<open>TimeoutError\<close>.
  \<^item> \<open>FileNotFound\<close>: spawning the process raised \<open>FileNotFoundError\<close> (the docker
    binary is missing), with whether \<open>/var/run/docker.sock\<close> exists and what reading the
    stderr file gives.
  \<^item> \<open>Raised\<close>: any other \<open>Exception\<close> while spawning or communicating (encoding the
    standard input included), with \<open>str(e)\<close>.
  \<^item> \<open>WorkspaceFailed\<close>: creating the temporary directory raised.
  \<^item> \<open>CleanupFailed\<close>: removing the temporary directory on leaving the \<open>with\<close> block
    raised.
\<close>

datatype run_event =
    Exited int file_read file_read file_read bool real
  | DeadlineElapsed real
  | FileNotFound bool file_read real
  | Raised pystr real
  | WorkspaceFailed
  | CleanupFailed

text \<open>The exceptions that leave \<open>score_code\<close>.\<close>

datatype py_exception =
    UnicodeEncodeError
  | WorkspaceError
  | HandlerError pystr
  | CleanupError

definition OOM_STDERR :: pystr where
  "OOM_STDERR = [47700, 47784, 47532, 32, 51228, 54620, 51012, 32, 52488, 44284, 54616,
     50668, 32, 54532, 47196, 49464, 49828, 44032, 32, 51333, 47308, 46104, 50632, 49845,
     45768, 45796, 46]"

definition TIMEOUT_STDERR :: "py_builtins \<Rightarrow> real \<Rightarrow> pystr" where
  "TIMEOUT_STDERR py timeout_seconds =
     [49892, 54665, 32, 49884, 44036, 51060, 32] @ format_seconds py timeout_seconds @
     [52488, 47484, 32, 52488, 44284, 54664, 49845, 45768, 45796, 46]"

definition DOCKER_NOT_FOUND :: pystr where
  "DOCKER_NOT_FOUND = [68, 111, 99, 107, 101, 114, 32, 47749, 47161, 50612, 47484, 32,
     52286, 51012, 32, 49688, 32, 50630, 49845, 45768, 45796, 46, 32, 68, 111, 99, 107, 101,
     114, 44032, 32, 49444, 52824, 46104, 50612, 32, 51080, 44256, 32, 49892, 54665, 32,
     51473, 51064, 51648, 32, 54869, 51064, 54616, 49464, 50836, 46]"

definition UNEXPECTED_ERROR :: pystr where
  "UNEXPECTED_ERROR = [50696, 49345, 52824, 32, 47803, 54620, 32, 50724, 47448, 44032, 32,
     48156, 49373, 54664, 49845, 45768, 45796, 46]"

text \<open>The dictionary of the \<open>except Exception\<close> handler.\<close>

definition unexpected :: "pystr \<Rightarrow> real \<Rightarrow> exec_result" where
  "unexpected msg elapsed =
     \<lparr>success = False, stdout = [], stderr = msg, max_memory_kb = None,
      elapsed_time = elapsed, error = Some UNEXPECTED_ERROR\<rparr>"

text \<open>
  The \<open>except FileNotFoundError\<close> handler.  It reads the stderr file again, outside any
  \<open>try\<close>: an exception of that read leaves \<open>score_code\<close>.
\<close>

definition file_not_found_handler :: "bool \<Rightarrow> file_read \<Rightarrow> real \<Rightarrow> py_exception + exec_result" where
  "file_not_found_handler docker_sock stderr_file elapsed =
     (if \<not> docker_sock then
        Inr \<lparr>success = False, stdout = [], stderr = [], max_memory_kb = None,
             elapsed_time = 0, error = Some DOCKER_NOT_FOUND\<rparr>
      else case stderr_file of
        Absent \<Rightarrow>
          Inr \<lparr>success = False, stdout = [], stderr = [], max_memory_kb = None,
               elapsed_time = elapsed, error = Some (ascii ''Runtime Error'')\<rparr>
      | Text user_stderr \<Rightarrow>
          Inr \<lparr>success = False, stdout = [], stderr = user_stderr, max_memory_kb = None,
               elapsed_time = elapsed, error = Some (ascii ''Runtime Error'')\<rparr>
      | Unreadable msg \<Rightarrow> Inl (HandlerError msg))"

text \<open>The branches on the return code, once the peak memory is known.\<close>

definition by_returncode ::
  "int \<Rightarrow> pystr \<Rightarrow> pystr \<Rightarrow> int option \<Rightarrow> real \<Rightarrow> exec_result"
where
  "by_returncode returncode user_stdout user_stderr mem elapsed =
     (if returncode = 0 then
        \<lparr>success = True, stdout = user_stdout, stderr = user_stderr,
         max_memory_kb = mem, elapsed_time = elapsed, error = None\<rparr>
      else if returncode = 137 then
        \<lparr>success = False, stdout = user_stdout,
         stderr = (if user_stderr = [] then OOM_STDERR else user_stderr),
         max_memory_kb = mem, elapsed_time = elapsed,
         error = Some (ascii ''Memory Limit Exceeded'')\<rparr>
      else if py_in (ascii ''SyntaxError:'') user_stderr
              \<or> py_in (ascii ''IndentationError:'') user_stderr then
        \<lparr>success = False, stdout = user_stdout, stderr = user_stderr,
         max_memory_kb = mem, elapsed_time = elapsed,
         error = Some (ascii ''Compilation Error'')\<rparr>
      else
        \<lparr>success = False, stdout = user_stdout, stderr = user_stderr,
         max_memory_kb = mem, elapsed_time = elapsed,
         error = Some (ascii ''Runtime Error'')\<rparr>)"

text \<open>
  The code after the three files are read: the peak memory is parsed, where \<open>int\<close> may raise
  into the \<open>except Exception\<close> handler, then the return code decides.
\<close>

definition after_reads :: "py_builtins \<Rightarrow> int \<Rightarrow> pystr \<Rightarrow> pystr \<Rightarrow> pystr \<Rightarrow> real \<Rightarrow> exec_result" where
  "after_reads py returncode user_stdout user_stderr time_stats elapsed =
     (case re_search py time_stats of
        None \<Rightarrow> by_returncode returncode user_stdout user_stderr None elapsed
      | Some g \<Rightarrow>
          (case py_int py g of
             None \<Rightarrow> unexpected (int_error_str py g) elapsed
           | Some n \<Rightarrow> by_returncode returncode user_stdout user_stderr (Some n) elapsed))"

text \<open>Whether parsing the peak memory out of this statistics text raises.\<close>

definition int_raises :: "py_builtins \<Rightarrow> pystr \<Rightarrow> bool" where
  "int_raises py time_stats =
     (case re_search py time_stats of None \<Rightarrow> False | Some g \<Rightarrow> py_int py g = None)"

text \<open>
  The temporary directory is created and the script written before the \<open>try\<close> block is
  entered, and the directory is removed after it is left, so an exception of these steps
  is not handled.
\<close>

definition score_code ::
  "py_builtins \<Rightarrow> pystr \<Rightarrow> pystr \<Rightarrow> real \<Rightarrow> int \<Rightarrow> run_event \<Rightarrow> py_exception + exec_result"
where
  "score_code py code stdin_data timeout_seconds memory_limit_mb ev =
     (case ev of
        WorkspaceFailed \<Rightarrow> Inl WorkspaceError
      | CleanupFailed \<Rightarrow> Inl CleanupError
      | Exited returncode stdout_file stderr_file stats_file docker_sock elapsed \<Rightarrow>
          (if \<not> utf8_encodable code then Inl UnicodeEncodeError
           else
             (case stdout_file of
                Absent \<Rightarrow> file_not_found_handler docker_sock stderr_file elapsed
              | Unreadable msg \<Rightarrow> Inr (unexpected msg elapsed)
              | Text user_stdout \<Rightarrow>
                  (case stderr_file of
                     Absent \<Rightarrow> file_not_found_handler docker_sock Absent elapsed
                   | Unreadable msg \<Rightarrow> Inr (unexpected msg elapsed)
                   | Text user_stderr \<Rightarrow>
                       (case stats_file of
                          Absent \<Rightarrow>
                            file_not_found_handler docker_sock (Text user_stderr) elapsed
                        | Unreadable msg \<Rightarrow> Inr (unexpected msg elapsed)
                        | Text time_stats \<Rightarrow>
                            Inr (after_reads py returncode user_stdout user_stderr
                                   time_stats elapsed)))))
      | DeadlineElapsed elapsed \<Rightarrow>
          (if \<not> utf8_encodable code then Inl UnicodeEncodeError
           else
             Inr \<lparr>success = False, stdout = [], stderr = TIMEOUT_STDERR py timeout_seconds,
                  max_memory_kb = None, elapsed_time = elapsed,
                  error = Some (ascii ''Timeout'')\<rparr>)
      | FileNotFound docker_sock stderr_file elapsed \<Rightarrow>
          (if \<not> utf8_encodable code then Inl UnicodeEncodeError
           else file_not_found_handler docker_sock stderr_file elapsed)
      | Raised msg elapsed \<Rightarrow>
          (if \<not> utf8_encodable code then Inl UnicodeEncodeError
           else Inr (unexpected msg elapsed)))"

section \<open>The score endpoint\<close>

datatype ScoringStatus =
    ACCEPTED
  | WRONG_ANSWER
  | COMPILATION_ERROR
  | RUNTIME_ERROR
  | TIMEOUT
  | MEMORY_LIMIT_EXCEEDED

text \<open>\<open>ScoringStatus(value)\<close>: the member with that value; \<open>None\<close> is \<open>ValueError\<close>.\<close>

definition ScoringStatus_of :: "pystr \<Rightarrow> ScoringStatus option" where
  "ScoringStatus_of v =
     (if v = ascii ''Accepted'' then Some ACCEPTED
      else if v = ascii ''Wrong Answer'' then Some WRONG_ANSWER
      else if v = ascii ''Compilation Error'' then Some COMPILATION_ERROR
      else if v = ascii ''Runtime Error'' then Some RUNTIME_ERROR
      else if v = ascii ''Timeout'' then Some TIMEOUT
      else if v = ascii ''Memory Limit Exceeded'' then Some MEMORY_LIMIT_EXCEEDED
      else None)"

record PSTestcase =
  id' :: "int option"
  input' :: "pystr option"
  output' :: "pystr option"
  time_limit :: real
  mem_limit :: int

record ScoringResult =
  testcase_id :: int
  status :: ScoringStatus
  stdout :: pystr
  stderr :: pystr
  elapsed_time :: real
  max_memory_kb :: "int option"

text \<open>\<open>x or ""\<close> on an optional string.\<close>

definition or_empty :: "pystr option \<Rightarrow> pystr" where
  "or_empty x = (case x of None \<Rightarrow> [] | Some s \<Rightarrow> s)"

text \<open>
  The status of one test case: the body of the loop between
  \<open>status_val = ScoringStatus.WRONG_ANSWER\<close> and the \<open>append\<close>.
\<close>

definition status_val :: "PSTestcase \<Rightarrow> exec_result \<Rightarrow> ScoringStatus" where
  "status_val tc result =
     (if error result \<noteq> None \<and> error result \<noteq> Some [] then
        (case ScoringStatus_of (or_empty (error result)) of
           Some s \<Rightarrow> s
         | None \<Rightarrow> RUNTIME_ERROR)
      else if success result
              \<and> strip (exec_result.stdout result) = strip (or_empty (output' tc)) then ACCEPTED
      else WRONG_ANSWER)"

datatype failure = HTTPException nat | Unhandled py_exception

text \<open>
  The loop over \<open>zip(testcases, execution_results)\<close>; a test case without an id raises
  \<open>HTTPException(500)\<close>.
\<close>

fun scoring_loop :: "(PSTestcase \<times> exec_result) list \<Rightarrow> failure + ScoringResult list" where
  "scoring_loop [] = Inr []"
| "scoring_loop ((tc, result) # rest) =
     (case id' tc of
        None \<Rightarrow> Inl (HTTPException 500)
      | Some i \<Rightarrow>
          (case scoring_loop rest of
             Inl e \<Rightarrow> Inl e
           | Inr rs \<Rightarrow>
               Inr (\<lparr>testcase_id = i, status = status_val tc result,
                     stdout = exec_result.stdout result, stderr = exec_result.stderr result,
                     elapsed_time = exec_result.elapsed_time result,
                     max_memory_kb = exec_result.max_memory_kb result\<rparr> # rs)))"

text \<open>
  \<open>asyncio.gather(*tasks)\<close>: the results in the order of the tasks, or the exception of
  a task that raised.  Which of several raising tasks is reported depends on timing; the
  model reports the one with the least index.
\<close>

fun gather :: "('e + 'a) list \<Rightarrow> 'e + 'a list" where
  "gather [] = Inr []"
| "gather (Inl e # ts) = Inl e"
| "gather (Inr r # ts) = (case gather ts of Inl e \<Rightarrow> Inl e | Inr rs \<Rightarrow> Inr (r # rs))"

text \<open>Python's \<open>all\<close> over the generator of comparisons.\<close>

fun py_all :: "bool list \<Rightarrow> bool" where
  "py_all [] = True"
| "py_all (b # bs) = (if b then py_all bs else False)"

definition all_accepted :: "ScoringResult list \<Rightarrow> bool" where
  "all_accepted scoring_results = py_all (map (\<lambda>result. status result = ACCEPTED) scoring_results)"

record PSShare =
  code :: "pystr option"
  is_correct :: bool

record Share =
  challenge_id :: int
  user_id :: int
  is_public :: bool
  prompt :: "pystr option"
  ps_share :: "PSShare option"

text \<open>
  The state the endpoint reads and writes: the challenges with their PS test cases
  (\<open>None\<close> when the challenge has no \<open>ps_challenge\<close>), the rows of the share table, and
  the module-level prompt cache keyed by (user id, challenge id).
\<close>

record app_state =
  challenges :: "int \<rightharpoonup> PSTestcase list option"
  shares :: "Share list"
  prompt_cache_for_ps_challenge :: "(int \<times> int) \<rightharpoonup> pystr"

text \<open>\<open>crud_share.create_ps_share\<close>: one \<open>Share\<close> row with its \<open>PSShare\<close> attached.\<close>

definition create_ps_share ::
  "app_state \<Rightarrow> int \<Rightarrow> bool \<Rightarrow> pystr option \<Rightarrow> pystr \<Rightarrow> bool \<Rightarrow> int \<Rightarrow> app_state"
where
  "create_ps_share st cid pub pr src correct uid =
     st\<lparr>shares := shares st @
          [\<lparr>challenge_id = cid, user_id = uid, is_public = pub, prompt = pr,
            ps_share = Some \<lparr>code = Some src, is_correct = correct\<rparr>\<rparr>]\<rparr>"

text \<open>\<open>d.pop(key, None)\<close>: the value stored under the key, if any, and the dictionary without it.\<close>

definition pop :: "('k \<rightharpoonup> 'v) \<Rightarrow> 'k \<Rightarrow> 'v option \<times> ('k \<rightharpoonup> 'v)" where
  "pop d k = (d k, d(k := None))"

text \<open>The runs of a batch: run \<open>i\<close> is the one of the \<open>i\<close>-th test case.\<close>

definition execution_results ::
  "py_builtins \<Rightarrow> (nat \<Rightarrow> run_event) \<Rightarrow> pystr \<Rightarrow> PSTestcase list \<Rightarrow> py_exception + exec_result list"
where
  "execution_results py world src testcases =
     gather (map (\<lambda>(i, tc). score_code py src (or_empty (input' tc)) (time_limit tc)
                               (mem_limit tc) (world i))
                 (enumerate 0 testcases))"

text \<open>
  The end of the endpoint, once the verdicts are known: the prompt is popped from the cache
  only when every test case was accepted, then the share is created.
\<close>

definition record_submission :: "app_state \<Rightarrow> int \<Rightarrow> int \<Rightarrow> pystr \<Rightarrow> bool \<Rightarrow> app_state" where
  "record_submission st uid cid src ok =
     (let (pr, cache) =
            (if ok then pop (prompt_cache_for_ps_challenge st) (uid, cid)
             else (None, prompt_cache_for_ps_challenge st))
      in create_ps_share (st\<lparr>prompt_cache_for_ps_challenge := cache\<rparr>) cid ok pr src ok uid)"

definition score_code_and_create_share ::
  "py_builtins \<Rightarrow> (nat \<Rightarrow> run_event) \<Rightarrow> app_state \<Rightarrow> int option \<Rightarrow> int \<Rightarrow> pystr
     \<Rightarrow> failure + (ScoringResult list \<times> app_state)"
where
  "score_code_and_create_share py world st current_user_id cid src =
     (case current_user_id of
        None \<Rightarrow> Inl (HTTPException 403)
      | Some uid \<Rightarrow>
          (if uid = 0 then Inl (HTTPException 403)
           else
             (case challenges st cid of
                None \<Rightarrow> Inl (HTTPException 404)
              | Some None \<Rightarrow> Inl (HTTPException 404)
              | Some (Some testcases) \<Rightarrow>
                  (case execution_results py world src testcases of
                     Inl e \<Rightarrow> Inl (Unhandled e)
                   | Inr results \<Rightarrow>
                       (case scoring_loop (zip testcases results) of
                          Inl e \<Rightarrow> Inl e
                        | Inr scoring_results \<Rightarrow>
                            Inr (scoring_results,
                                 record_submission st uid cid src
                                   (all_accepted scoring_results)))))))"

section \<open>Sample inputs\<close>

text \<open>
  An instance of the interpreter parameters for evaluating the definitions on concrete
  inputs: it prints a float of integral value as Python does (\<open>2.0\<close>), knows the ASCII
  digits, and has the default limit of 4300 digits.
\<close>


fun decimal_digits :: "nat \<Rightarrow> pystr" where
  "decimal_digits n = (if n < 10 then [48 + n] else decimal_digits (n div 10) @ [48 + n mod 10])"

declare decimal_digits.simps [simp del]

definition ascii_decimal :: "nat \<Rightarrow> nat option" where
  "ascii_decimal c = (if 48 \<le> c \<and> c \<le> 57 then Some (c - 48) else None)"

definition sample_builtins :: py_builtins where
  "sample_builtins =
     \<lparr>format_seconds = (\<lambda>t. decimal_digits (nat \<lfloor>t\<rfloor>) @ ascii ''.0''),
      unicode_decimal = ascii_decimal,
      int_max_str_digits = 4300,
      int_error_str = (\<lambda>ds. ascii ''Exceeds the limit (4300 digits) for integer string conversion'')\<rparr>"

definition echo_src :: pystr where
  "echo_src = ascii ''print(input())''"

definition hello_tc :: PSTestcase where
  "hello_tc = \<lparr>id' = Some 1, input' = Some (ascii ''Hello, World!''),
                output' = Some (ascii ''Hello, World!''), time_limit = 2, mem_limit = 128\<rparr>"

definition hello_out :: exec_result where
  "hello_out = \<lparr>success = True, stdout = ascii ''Hello, World!'' @ [10], stderr = [],
                 max_memory_kb = None, elapsed_time = 1 / 20, error = None\<rparr>"

definition spin_src :: pystr where
  "spin_src = ascii ''while True: pass''"

definition empty_tc :: PSTestcase where
  "empty_tc = \<lparr>id' = Some 2, input' = None, output' = None, time_limit = 2, mem_limit = 128\<rparr>"

definition decode_error :: pystr where
  "decode_error = ascii ''invalid start byte''"

definition long_stats :: pystr where
  "long_stats = MEM_LABEL @ replicate 4301 57"

definition mixed_results :: "ScoringResult list" where
  "mixed_results =
     [\<lparr>testcase_id = 1, status = ACCEPTED, stdout = [], stderr = [], elapsed_time = 0,
       max_memory_kb = None\<rparr>,
      \<lparr>testcase_id = 2, status = WRONG_ANSWER, stdout = [], stderr = [], elapsed_time = 0,
       max_memory_kb = None\<rparr>,
      \<lparr>testcase_id = 3, status = ACCEPTED, stdout = [], stderr = [], elapsed_time = 0,
       max_memory_kb = None\<rparr>]"

text \<open>
  A state with one PS challenge (id 7) of one test case and a cached prompt of user 5, and
  two worlds: one where the submission echoes its input, one where the docker binary is
  missing and there is no docker socket.
\<close>

definition hello_state :: app_state where
  "hello_state =
     \<lparr>challenges = [7 \<mapsto> Some [hello_tc]], shares = [],
      prompt_cache_for_ps_challenge = [(5, 7) \<mapsto> ascii ''echo the input'']\<rparr>"

definition hello_world :: "nat \<Rightarrow> run_event" where
  "hello_world i = Exited 0 (Text (ascii ''Hello, World!'' @ [10])) (Text []) (Text []) True (1 / 20)"


definition hello_verdicts :: "ScoringResult list" where
  "hello_verdicts =
     [\<lparr>testcase_id = 1, status = ACCEPTED, stdout = ascii ''Hello, World!'' @ [10],
       stderr = [], elapsed_time = 1 / 20, max_memory_kb = None\<rparr>]"


text \<open>
  A challenge with two test cases: the first run prints the expected text, the second is
  still running when its deadline elapses.
\<close>

definition pair_state :: app_state where
  "pair_state =
     \<lparr>challenges = [7 \<mapsto> Some [hello_tc, empty_tc]], shares = [],
      prompt_cache_for_ps_challenge = [(5, 7) \<mapsto> ascii ''echo the input'']\<rparr>"

definition pair_world :: "nat \<Rightarrow> run_event" where
  "pair_world i = (if i = 0 then hello_world 0 else DeadlineElapsed 2)"

definition spin_out :: exec_result where
  "spin_out = \<lparr>success = False, stdout = [], stderr = TIMEOUT_STDERR sample_builtins 2,
                max_memory_kb = None, elapsed_time = 2, error = Some (ascii ''Timeout'')\<rparr>"

definition pair_verdicts :: "ScoringResult list" where
  "pair_verdicts =
     [\<lparr>testcase_id = 1, status = ACCEPTED, stdout = ascii ''Hello, World!'' @ [10],
       stderr = [], elapsed_time = 1 / 20, max_memory_kb = None\<rparr>,
      \<lparr>testcase_id = 2, status = TIMEOUT, stdout = [],
       stderr = TIMEOUT_STDERR sample_builtins 2, elapsed_time = 2, max_memory_kb = None\<rparr>]"


text \<open>The line of the statistics file as \<open>/usr/bin/time -v\<close> writes it.\<close>

definition stats_line :: pystr where
  "stats_line = [9] @ MEM_LABEL @ ascii '' 10240'' @ [10]"

section \<open>Properties of one run and its verdict\<close>

lemma echo_src_encodable: "utf8_encodable echo_src"
  by (simp add: echo_src_def utf8_encodable_def)

lemma spin_src_encodable: "utf8_encodable spin_src"
  by (simp add: spin_src_def utf8_encodable_def)

lemma docker_not_found_status:
  "DOCKER_NOT_FOUND \<noteq> []" "ScoringStatus_of DOCKER_NOT_FOUND = None"
  by (simp_all add: DOCKER_NOT_FOUND_def ScoringStatus_of_def)

lemma unexpected_error_status:
  "UNEXPECTED_ERROR \<noteq> []" "ScoringStatus_of UNEXPECTED_ERROR = None"
  by (simp_all add: UNEXPECTED_ERROR_def ScoringStatus_of_def)

lemma status_val_error:
  assumes "error r = Some e" "e \<noteq> []"
  shows "status_val tc r = (case ScoringStatus_of e of Some s \<Rightarrow> s | None \<Rightarrow> RUNTIME_ERROR)"
  using assms by (simp add: status_val_def or_empty_def)

lemma status_val_unexpected: "status_val tc (unexpected msg el) = RUNTIME_ERROR"
proof -
  have "error (unexpected msg el) = Some UNEXPECTED_ERROR"
    by (simp add: unexpected_def)
  from status_val_error [OF this unexpected_error_status(1)] show ?thesis
    by (simp add: unexpected_error_status(2))
qed

lemma status_val_by_returncode:
  "status_val tc (by_returncode rc out err mem el) =
     (if rc = 137 then MEMORY_LIMIT_EXCEEDED
      else if rc = 0 then
        (if strip out = strip (or_empty (output' tc)) then ACCEPTED else WRONG_ANSWER)
      else if py_in (ascii ''SyntaxError:'') err \<or> py_in (ascii ''IndentationError:'') err
        then COMPILATION_ERROR
      else RUNTIME_ERROR)"
  by (simp add: by_returncode_def status_val_def ScoringStatus_of_def or_empty_def)

lemma after_reads_parsed:
  assumes "\<not> int_raises py stats"
  shows "\<exists>mem. after_reads py rc out err stats el = by_returncode rc out err mem el"
  using assms by (auto simp: after_reads_def int_raises_def split: option.splits)

lemma after_reads_raised:
  assumes "int_raises py stats"
  shows "\<exists>msg. after_reads py rc out err stats el = unexpected msg el"
  using assms by (auto simp: after_reads_def int_raises_def split: option.splits)

lemma status_val_after_reads:
  "status_val tc (after_reads py rc out err stats el) =
     (if int_raises py stats then RUNTIME_ERROR
      else status_val tc (by_returncode rc out err None el))"
proof (cases "int_raises py stats")
  case True
  from after_reads_raised [OF this] show ?thesis
    using True by (metis status_val_unexpected)
next
  case False
  from after_reads_parsed [OF this] obtain mem
    where "after_reads py rc out err stats el = by_returncode rc out err mem el" by blast
  then show ?thesis using False by (simp add: status_val_by_returncode)
qed

lemma score_code_Exited_read:
  assumes "utf8_encodable src"
  shows "score_code py src inp t m (Exited rc (Text out) (Text err) (Text stats) sock el) =
     Inr (after_reads py rc out err stats el)"
  using assms by (simp add: score_code_def)

lemma score_code_encodable:
  assumes "score_code py src inp t m ev = Inr r"
  shows "utf8_encodable src"
  using assms by (cases ev; cases "utf8_encodable src") (simp_all add: score_code_def)

lemma handler_not_accepted:
  assumes "file_not_found_handler sock f el = Inr r"
  shows "status_val tc r = RUNTIME_ERROR"
proof -
  from assms have "error r = Some DOCKER_NOT_FOUND \<or> error r = Some (ascii ''Runtime Error'')"
    by (cases f) (auto simp: file_not_found_handler_def split: if_splits)
  then show ?thesis
  proof
    assume "error r = Some DOCKER_NOT_FOUND"
    from status_val_error [OF this docker_not_found_status(1)] show ?thesis
      by (simp add: docker_not_found_status(2))
  next
    assume "error r = Some (ascii ''Runtime Error'')"
    then show ?thesis
      by (simp add: status_val_def ScoringStatus_of_def or_empty_def)
  qed
qed

text \<open>
  Claim C2, as the code has it.  A run whose deadline elapsed is \<open>Timeout\<close>.  For a run
  that exited and whose three output files were read: when parsing the peak memory raises,
  the run goes through the \<open>except Exception\<close> handler and the verdict is
  \<open>Runtime Error\<close> whatever the return code; otherwise return code 137 is
  \<open>Memory Limit Exceeded\<close>, return code 0 is \<open>Accepted\<close> when the stripped stdout equals
  the stripped expected output and \<open>Wrong Answer\<close> when not, and any other return code is
  \<open>Compilation Error\<close> when stderr contains \<open>SyntaxError:\<close> or \<open>IndentationError:\<close> and
  \<open>Runtime Error\<close> otherwise.
\<close>

theorem verdict_decision_order:
  assumes "utf8_encodable src"
  shows "map_sum id (status_val tc) (score_code py src inp t m (DeadlineElapsed el)) = Inr TIMEOUT
    \<and> map_sum id (status_val tc)
        (score_code py src inp t m (Exited rc (Text out) (Text err) (Text stats) sock el)) =
        Inr (if int_raises py stats then RUNTIME_ERROR
             else if rc = 137 then MEMORY_LIMIT_EXCEEDED
             else if rc = 0 then
               (if strip out = strip (or_empty (output' tc)) then ACCEPTED else WRONG_ANSWER)
             else if py_in (ascii ''SyntaxError:'') err \<or> py_in (ascii ''IndentationError:'') err
               then COMPILATION_ERROR
             else RUNTIME_ERROR)"
proof -
  have "map_sum id (status_val tc) (score_code py src inp t m (DeadlineElapsed el)) = Inr TIMEOUT"
    using assms by (simp add: score_code_def status_val_def ScoringStatus_of_def or_empty_def)
  moreover have "map_sum id (status_val tc)
        (score_code py src inp t m (Exited rc (Text out) (Text err) (Text stats) sock el)) =
      Inr (status_val tc (after_reads py rc out err stats el))"
    by (simp add: score_code_Exited_read [OF assms])
  ultimately show ?thesis
    by (simp add: status_val_after_reads status_val_by_returncode)
qed

lemma match_at_label_digits:
  assumes "ds \<noteq> []" "list_all (is_digit py) ds" "\<not> py_isspace (hd ds)"
  shows "match_at py (MEM_LABEL @ ds) = Some ds"
proof -
  from assms(1) obtain d ds' where ds: "ds = d # ds'" by (cases ds) auto
  with assms(3) have sp: "takeWhile py_isspace ds = []" by simp
  have dg: "takeWhile (is_digit py) ds = ds"
    using assms(2) by (simp add: list_all_iff)
  have sw: "startswith (MEM_LABEL @ ds) MEM_LABEL" by (simp add: startswith_def)
  have dr: "drop (length MEM_LABEL) (MEM_LABEL @ ds) = ds" by simp
  have "backtrack py 0 ds = Some ds"
    unfolding backtrack.simps digits_at_def Let_def drop_0 dg using assms(1) by simp
  then show ?thesis
    unfolding match_at_def Let_def dr sp using sw by simp
qed

lemma re_search_label_digits:
  assumes "ds \<noteq> []" "list_all (is_digit py) ds" "\<not> py_isspace (hd ds)"
  shows "re_search py (MEM_LABEL @ ds) = Some ds"
proof -
  obtain c cs where cs: "MEM_LABEL @ ds = c # cs"
    using assms(1) by (cases "MEM_LABEL @ ds") auto
  have "match_at py (c # cs) = Some ds"
    using match_at_label_digits [OF assms] cs by simp
  then have "re_search py (c # cs) = Some ds" by simp
  with cs show ?thesis by simp
qed

lemma long_stats_raises: "int_raises sample_builtins long_stats"
proof -
  have "is_digit sample_builtins 57"
    by (simp add: is_digit_def sample_builtins_def ascii_decimal_def)
  then have "re_search sample_builtins (MEM_LABEL @ replicate 4301 57) = Some (replicate 4301 57)"
    by (intro re_search_label_digits) (simp_all add: list_all_iff py_isspace_def)
  then show ?thesis
    by (simp add: int_raises_def long_stats_def py_int_def sample_builtins_def)
qed

lemma empty_stats_parse: "\<not> int_raises py []"
  by (simp add: int_raises_def)

lemma hello_strip:
  "strip (ascii ''Hello, World!'' @ [10]) = strip (or_empty (output' hello_tc))"
  by (simp add: strip_def py_isspace_def or_empty_def hello_tc_def)

theorem verdict_decision_order_witness:
  "utf8_encodable echo_src
   \<and> map_sum id (status_val hello_tc)
        (score_code sample_builtins echo_src (ascii ''Hello, World!'') 2 128 (DeadlineElapsed 2)) =
       Inr TIMEOUT
   \<and> map_sum id (status_val hello_tc)
        (score_code sample_builtins echo_src (ascii ''Hello, World!'') 2 128
           (Exited 0 (Text (ascii ''Hello, World!'' @ [10])) (Text []) (Text []) True 2)) =
       Inr ACCEPTED"
  using verdict_decision_order [OF echo_src_encodable, where tc = hello_tc
      and py = sample_builtins and inp = "ascii ''Hello, World!''" and t = 2 and m = 128
      and el = 2 and rc = 0 and out = "ascii ''Hello, World!'' @ [10]" and err = "[]"
      and stats = "[]" and sock = True]
    echo_src_encodable empty_stats_parse [of sample_builtins] hello_strip
  by simp

text \<open>
  Claim C2 fails as stated: a run that exits with code 0 and prints the expected output,
  but whose statistics file holds the label followed by 4301 digits, is
  \<open>Runtime Error\<close>, not \<open>Accepted\<close>.
\<close>

theorem verdict_decision_order_counterexample:
  "strip (ascii ''Hello, World!'' @ [10]) = strip (or_empty (output' hello_tc))
   \<and> map_sum id (status_val hello_tc)
        (score_code sample_builtins echo_src (ascii ''Hello, World!'') 2 128
           (Exited 0 (Text (ascii ''Hello, World!'' @ [10])) (Text []) (Text long_stats) True 2)) =
       Inr RUNTIME_ERROR"
proof -
  have "score_code sample_builtins echo_src (ascii ''Hello, World!'') 2 128
           (Exited 0 (Text (ascii ''Hello, World!'' @ [10])) (Text []) (Text long_stats) True 2) =
        Inr (after_reads sample_builtins 0 (ascii ''Hello, World!'' @ [10]) [] long_stats 2)"
    by (rule score_code_Exited_read [OF echo_src_encodable])
  then show ?thesis
    using hello_strip long_stats_raises by (simp add: status_val_after_reads)
qed

lemma status_val_timeout:
  assumes "error r = Some (ascii ''Timeout'')"
  shows "status_val tc r = TIMEOUT"
  using assms by (simp add: status_val_def ScoringStatus_of_def or_empty_def)

lemma by_returncode_accepted:
  "status_val tc (after_reads py rc out err stats el) = ACCEPTED \<longleftrightarrow>
     rc = 0 \<and> \<not> int_raises py stats \<and> strip out = strip (or_empty (output' tc))"
  by (simp add: status_val_after_reads status_val_by_returncode)

text \<open>
  Claim C3, as the code has it.  Whenever \<open>score_code\<close> returns a result, the verdict is
  \<open>Accepted\<close> exactly when the process exited with code 0, its three output files were
  read, parsing the peak memory did not raise, and the stripped stdout equals the stripped
  expected output; an empty or missing expected output is met exactly by a stdout that
  strips to the empty string.
\<close>

theorem accepted_iff:
  assumes "score_code py src inp t m ev = Inr r"
  shows "(status_val tc r = ACCEPTED \<longleftrightarrow>
            (\<exists>out err stats sock el.
               ev = Exited 0 (Text out) (Text err) (Text stats) sock el
               \<and> \<not> int_raises py stats
               \<and> strip out = strip (or_empty (output' tc))))
         \<and> (output' tc = None \<or> output' tc = Some [] \<longrightarrow>
              (status_val tc r = ACCEPTED \<longleftrightarrow>
                 (\<exists>out err stats sock el.
                    ev = Exited 0 (Text out) (Text err) (Text stats) sock el
                    \<and> \<not> int_raises py stats \<and> strip out = [])))"
proof -
  have enc: "utf8_encodable src"
    using assms by (rule score_code_encodable)
  have main: "status_val tc r = ACCEPTED \<longleftrightarrow>
            (\<exists>out err stats sock el.
               ev = Exited 0 (Text out) (Text err) (Text stats) sock el
               \<and> \<not> int_raises py stats
               \<and> strip out = strip (or_empty (output' tc)))"
  proof (cases ev)
    case (Exited rc fo fe fs sock el)
    show ?thesis
    proof (cases "\<exists>out err stats. fo = Text out \<and> fe = Text err \<and> fs = Text stats")
      case True
      then obtain out err stats where f: "fo = Text out" "fe = Text err" "fs = Text stats"
        by blast
      with assms Exited enc have "r = after_reads py rc out err stats el"
        by (simp add: score_code_Exited_read)
      with Exited f show ?thesis by (simp add: by_returncode_accepted)
    next
      case False
      with assms Exited enc have
        "(\<exists>f'. file_not_found_handler sock f' el = Inr r) \<or> (\<exists>msg. r = unexpected msg el)"
        by (cases fo; cases fe; cases fs) (auto simp: score_code_def)
      then have "status_val tc r = RUNTIME_ERROR"
        using handler_not_accepted status_val_unexpected by blast
      with Exited False show ?thesis by auto
    qed
  next
    case (DeadlineElapsed el)
    with assms enc have "error r = Some (ascii ''Timeout'')"
      by (auto simp: score_code_def)
    then have "status_val tc r = TIMEOUT" by (rule status_val_timeout)
    with DeadlineElapsed show ?thesis by simp
  next
    case (FileNotFound sock f el)
    with assms enc have "file_not_found_handler sock f el = Inr r"
      by (simp add: score_code_def)
    then have "status_val tc r = RUNTIME_ERROR" by (rule handler_not_accepted)
    with FileNotFound show ?thesis by simp
  next
    case (Raised msg el)
    with assms enc have "r = unexpected msg el"
      by (simp add: score_code_def)
    then have "status_val tc r = RUNTIME_ERROR" by (simp add: status_val_unexpected)
    with Raised show ?thesis by simp
  next
    case WorkspaceFailed
    with assms show ?thesis by (simp add: score_code_def)
  next
    case CleanupFailed
    with assms show ?thesis by (simp add: score_code_def)
  qed
  have empty: "strip (or_empty (output' tc)) = []"
    if "output' tc = None \<or> output' tc = Some []"
    using that by (auto simp: or_empty_def strip_def)
  show ?thesis using main empty by auto
qed

theorem accepted_iff_witness:
  "score_code sample_builtins echo_src (ascii ''Hello, World!'') 2 128
     (Exited 0 (Text (ascii ''Hello, World!'' @ [10])) (Text []) (Text []) True (1 / 20))
     = Inr hello_out
   \<and> status_val hello_tc hello_out = ACCEPTED"
proof -
  have run: "score_code sample_builtins echo_src (ascii ''Hello, World!'') 2 128
     (Exited 0 (Text (ascii ''Hello, World!'' @ [10])) (Text []) (Text []) True (1 / 20))
     = Inr hello_out"
    using echo_src_encodable
    by (simp add: score_code_def after_reads_def by_returncode_def hello_out_def)
  note iff = accepted_iff [OF run, of hello_tc, THEN conjunct1]
  have ex: "\<exists>out err stats sock el.
      Exited 0 (Text (ascii ''Hello, World!'' @ [10])) (Text []) (Text []) True (1 / 20) =
        Exited 0 (Text out) (Text err) (Text stats) sock el
      \<and> \<not> int_raises sample_builtins stats
      \<and> strip out = strip (or_empty (output' hello_tc))"
    apply (intro exI conjI)
      apply (rule refl)
     apply (rule empty_stats_parse)
    apply (rule hello_strip)
    done
  from iff ex have "status_val hello_tc hello_out = ACCEPTED" by (rule iffD2)
  with run show ?thesis by (rule conjI)
qed

text \<open>
  Claim C3 fails as stated: a run that exits with code 0 and prints nothing, with an empty
  expected output, is \<open>Runtime Error\<close> when its stderr file cannot be decoded.
\<close>

theorem accepted_iff_counterexample:
  "strip [] = strip (or_empty (output' empty_tc))
   \<and> map_sum id (status_val empty_tc)
        (score_code sample_builtins echo_src [] 2 128
           (Exited 0 (Text []) (Unreadable decode_error) (Text []) True 1)) = Inr RUNTIME_ERROR"
  using echo_src_encodable
  by (simp add: score_code_def status_val_unexpected or_empty_def empty_tc_def)

text \<open>
  Claim C4, as the code has it.  When the deadline elapses, \<open>score_code\<close> returns a
  failed result with error \<open>Timeout\<close>, no peak memory, an empty stdout and the timeout
  message built from the time limit; its \<open>elapsed_time\<close> is the wall-clock time measured
  since the launch, which is not the time limit itself.
\<close>

theorem timeout_result:
  assumes "utf8_encodable src"
  shows "score_code py src inp t m (DeadlineElapsed el) =
     Inr \<lparr>success = False, stdout = [], stderr = TIMEOUT_STDERR py t, max_memory_kb = None,
          elapsed_time = el, error = Some (ascii ''Timeout'')\<rparr>"
  using assms by (simp add: score_code_def)

theorem timeout_result_witness:
  "utf8_encodable spin_src
   \<and> score_code sample_builtins spin_src [] 2 128 (DeadlineElapsed (201 / 100)) =
     Inr \<lparr>success = False, stdout = [],
          stderr = [49892, 54665, 32, 49884, 44036, 51060, 32] @ ascii ''2.0'' @
                   [52488, 47484, 32, 52488, 44284, 54664, 49845, 45768, 45796, 46],
          max_memory_kb = None, elapsed_time = 201 / 100, error = Some (ascii ''Timeout'')\<rparr>"
  using timeout_result [OF spin_src_encodable, of sample_builtins "[]" 2 128 "201 / 100"]
    spin_src_encodable
  by (simp add: TIMEOUT_STDERR_def sample_builtins_def decimal_digits.simps)

text \<open>
  Claim C4 fails as stated: with a time limit of 2 seconds and 2.01 seconds measured when
  the deadline is noticed, the reported wall time is 2.01, not the limit.
\<close>

theorem timeout_wall_time_counterexample:
  "map_sum id exec_result.elapsed_time
     (score_code sample_builtins spin_src [] 2 128 (DeadlineElapsed (201 / 100))) = Inr (201 / 100)
   \<and> map_sum id exec_result.elapsed_time
     (score_code sample_builtins spin_src [] 2 128 (DeadlineElapsed (201 / 100))) \<noteq> Inr 2"
  using spin_src_encodable by (simp add: score_code_def)

text \<open>
  Claim C7, as the code has it.  A run that ends with return code 137 (killed by the
  out-of-memory mechanism), whose three output files were read and whose peak memory
  parses, is reported with error \<open>Memory Limit Exceeded\<close> and gets the verdict of that
  name, not \<open>Runtime Error\<close>; when the program wrote nothing to stderr, the synthesized
  message is put there.
\<close>

theorem oom_result:
  assumes "utf8_encodable src" "\<not> int_raises py stats"
  shows "map_sum id (\<lambda>r. (error r, exec_result.stderr r, status_val tc r))
           (score_code py src inp t m (Exited 137 (Text out) (Text err) (Text stats) sock el)) =
         Inr (Some (ascii ''Memory Limit Exceeded''),
              (if err = [] then OOM_STDERR else err), MEMORY_LIMIT_EXCEEDED)"
proof -
  from after_reads_parsed [OF assms(2)] obtain mem
    where "after_reads py 137 out err stats el = by_returncode 137 out err mem el" by blast
  then show ?thesis
    using assms(1)
    by (simp add: score_code_Exited_read status_val_by_returncode) (simp add: by_returncode_def)
qed

theorem oom_result_witness:
  "utf8_encodable echo_src \<and> \<not> int_raises sample_builtins []
   \<and> map_sum id (\<lambda>r. (error r, exec_result.stderr r, status_val hello_tc r))
        (score_code sample_builtins echo_src [] 2 128
           (Exited 137 (Text []) (Text []) (Text []) True 1)) =
      Inr (Some (ascii ''Memory Limit Exceeded''), OOM_STDERR, MEMORY_LIMIT_EXCEEDED)"
  using oom_result [OF echo_src_encodable empty_stats_parse, of hello_tc sample_builtins
      "[]" 2 128 "[]" "[]" True 1]
    echo_src_encodable empty_stats_parse [of sample_builtins]
  by simp

text \<open>
  Claim C7 fails as stated: a run killed with return code 137 whose stderr file cannot be
  decoded is reported through the \<open>except Exception\<close> handler, and its verdict is
  \<open>Runtime Error\<close>.
\<close>

theorem oom_result_counterexample:
  "map_sum id (\<lambda>r. (error r, exec_result.stderr r, status_val hello_tc r))
     (score_code sample_builtins echo_src [] 2 128
        (Exited 137 (Text []) (Unreadable decode_error) (Text []) True 1)) =
   Inr (Some UNEXPECTED_ERROR, decode_error, RUNTIME_ERROR)"
  using echo_src_encodable
  by (simp add: score_code_def status_val_unexpected) (simp add: unexpected_def)

text \<open>
  Claim C9 against the code.  When the stdout file is missing, the docker socket exists and
  the stderr file cannot be decoded, the read inside the \<open>except FileNotFoundError\<close>
  handler raises and the exception leaves \<open>score_code\<close>, where the claim has a
  dictionary returned on every path.
\<close>

theorem score_code_handler_escape:
  "score_code sample_builtins echo_src [] 2 128
     (Exited 0 Absent (Unreadable decode_error) Absent True 1) = Inl (HandlerError decode_error)"
  using echo_src_encodable by (simp add: score_code_def file_not_found_handler_def)

section \<open>Properties of the batch\<close>

lemma py_all_iff: "py_all bs \<longleftrightarrow> (\<forall>b \<in> set bs. b)"
  by (induction bs) auto

text \<open>
  Claim C6.  \<open>all_accepted\<close> holds if and only if every verdict is \<open>Accepted\<close>; it
  holds for the empty list, and fails as soon as one verdict among many is not \<open>Accepted\<close>.
\<close>

theorem all_accepted_iff:
  "(all_accepted rs \<longleftrightarrow> (\<forall>r \<in> set rs. status r = ACCEPTED))
   \<and> all_accepted []
   \<and> (\<forall>i < length rs. status (rs ! i) \<noteq> ACCEPTED \<longrightarrow> \<not> all_accepted rs)"
  by (auto simp: all_accepted_def py_all_iff)

theorem all_accepted_iff_witness:
  "1 < length mixed_results \<and> status (mixed_results ! 1) \<noteq> ACCEPTED
   \<and> \<not> all_accepted mixed_results"
  using all_accepted_iff [of mixed_results] by (simp add: mixed_results_def)

lemma gather_Inr:
  "gather xs = Inr rs \<Longrightarrow> length rs = length xs \<and> (\<forall>i < length xs. xs ! i = Inr (rs ! i))"
proof (induction xs arbitrary: rs)
  case Nil
  then show ?case by simp
next
  case (Cons x xs)
  show ?case
  proof (cases x)
    case (Inl e)
    with Cons.prems show ?thesis by simp
  next
    case (Inr r)
    with Cons.prems obtain rs' where rs': "gather xs = Inr rs'" "rs = r # rs'"
      by (cases "gather xs") auto
    from Cons.IH [OF rs'(1)] have len: "length rs' = length xs"
      and nth: "\<And>i. i < length xs \<Longrightarrow> xs ! i = Inr (rs' ! i)" by blast+
    have "(x # xs) ! i = Inr (rs ! i)" if "i < length (x # xs)" for i
    proof (cases i)
      case 0
      then show ?thesis unfolding rs'(2) Inr by simp
    next
      case (Suc j)
      with that have "j < length xs" by simp
      from nth [OF this] show ?thesis unfolding rs'(2) Suc by simp
    qed
    moreover have "length rs = length (x # xs)" unfolding rs'(2) using len by simp
    ultimately show ?thesis by blast
  qed
qed


lemma scoring_loop_Inr:
  "scoring_loop ps = Inr vs \<Longrightarrow>
     length vs = length ps
     \<and> (\<forall>i < length ps.
           id' (fst (ps ! i)) = Some (testcase_id (vs ! i))
           \<and> status (vs ! i) = status_val (fst (ps ! i)) (snd (ps ! i))
           \<and> ScoringResult.stdout (vs ! i) = exec_result.stdout (snd (ps ! i))
           \<and> ScoringResult.stderr (vs ! i) = exec_result.stderr (snd (ps ! i))
           \<and> ScoringResult.elapsed_time (vs ! i) = exec_result.elapsed_time (snd (ps ! i))
           \<and> ScoringResult.max_memory_kb (vs ! i) = exec_result.max_memory_kb (snd (ps ! i)))"
proof (induction ps arbitrary: vs)
  case Nil
  then show ?case by simp
next
  case (Cons p ps)
  obtain tc result where p: "p = (tc, result)" by (cases p)
  let ?v = "\<lambda>i. \<lparr>testcase_id = i, status = status_val tc result,
               stdout = exec_result.stdout result, stderr = exec_result.stderr result,
               elapsed_time = exec_result.elapsed_time result,
               max_memory_kb = exec_result.max_memory_kb result\<rparr>"
  from Cons.prems p obtain i where i: "id' tc = Some i"
    by (cases "id' tc") auto
  with Cons.prems p obtain vs' where v: "scoring_loop ps = Inr vs'" "vs = ?v i # vs'"
    by (cases "scoring_loop ps") auto
  from Cons.IH [OF v(1)] have len: "length vs' = length ps"
    and nth: "\<And>j. j < length ps \<Longrightarrow>
           id' (fst (ps ! j)) = Some (testcase_id (vs' ! j))
           \<and> status (vs' ! j) = status_val (fst (ps ! j)) (snd (ps ! j))
           \<and> ScoringResult.stdout (vs' ! j) = exec_result.stdout (snd (ps ! j))
           \<and> ScoringResult.stderr (vs' ! j) = exec_result.stderr (snd (ps ! j))
           \<and> ScoringResult.elapsed_time (vs' ! j) = exec_result.elapsed_time (snd (ps ! j))
           \<and> ScoringResult.max_memory_kb (vs' ! j) = exec_result.max_memory_kb (snd (ps ! j))"
    by blast+
  have "id' (fst ((p # ps) ! k)) = Some (testcase_id (vs ! k))
           \<and> status (vs ! k) = status_val (fst ((p # ps) ! k)) (snd ((p # ps) ! k))
           \<and> ScoringResult.stdout (vs ! k) = exec_result.stdout (snd ((p # ps) ! k))
           \<and> ScoringResult.stderr (vs ! k) = exec_result.stderr (snd ((p # ps) ! k))
           \<and> ScoringResult.elapsed_time (vs ! k) = exec_result.elapsed_time (snd ((p # ps) ! k))
           \<and> ScoringResult.max_memory_kb (vs ! k) = exec_result.max_memory_kb (snd ((p # ps) ! k))"
    if "k < length (p # ps)" for k
  proof (cases k)
    case 0
    then show ?thesis unfolding v(2) p using i by simp
  next
    case (Suc j)
    with that have "j < length ps" by simp
    from nth [OF this] show ?thesis unfolding v(2) Suc by simp
  qed
  moreover have "length vs = length (p # ps)" unfolding v(2) using len by simp
  ultimately show ?case by blast
qed


lemma run_nth:
  assumes "i < length tcs"
  shows "map (\<lambda>(i, tc). score_code py src (or_empty (input' tc)) (time_limit tc)
                               (mem_limit tc) (world i)) (enumerate 0 tcs) ! i =
      score_code py src (or_empty (input' (tcs ! i))) (time_limit (tcs ! i))
             (mem_limit (tcs ! i)) (world i)"
proof -
  have "enumerate 0 tcs ! i = (i, tcs ! i)"
    using assms by (simp add: nth_enumerate_eq)
  moreover have "i < length (enumerate 0 tcs)" using assms by simp
  ultimately show ?thesis by (simp only: nth_map case_prod_conv)
qed

lemma execution_results_Inr:
  assumes "execution_results py world src tcs = Inr results"
  shows "length results = length tcs
     \<and> (\<forall>i < length tcs.
           score_code py src (or_empty (input' (tcs ! i))) (time_limit (tcs ! i))
             (mem_limit (tcs ! i)) (world i) = Inr (results ! i))"
proof -
  let ?runs = "map (\<lambda>(i, tc). score_code py src (or_empty (input' tc)) (time_limit tc)
                               (mem_limit tc) (world i)) (enumerate 0 tcs)"
  from assms have g: "gather ?runs = Inr results"
    unfolding execution_results_def .
  have l: "length ?runs = length tcs" by simp
  from gather_Inr [OF g] have len: "length results = length ?runs"
    and nth: "\<And>i. i < length ?runs \<Longrightarrow> ?runs ! i = Inr (results ! i)" by blast+
  have "score_code py src (or_empty (input' (tcs ! i))) (time_limit (tcs ! i))
             (mem_limit (tcs ! i)) (world i) = Inr (results ! i)" if "i < length tcs" for i
  proof -
    from that l have "i < length ?runs" by (simp only:)
    from nth [OF this] show ?thesis unfolding run_nth [OF that] .
  qed
  moreover from len l have "length results = length tcs" by (simp only:)
  ultimately show ?thesis by blast
qed


lemma endpoint_Inr:
  assumes "score_code_and_create_share py world st u cid src = Inr (vs, st')"
  obtains uid tcs results where "u = Some uid" "uid \<noteq> 0"
    "challenges st cid = Some (Some tcs)"
    "execution_results py world src tcs = Inr results"
    "scoring_loop (zip tcs results) = Inr vs"
    "st' = record_submission st uid cid src (all_accepted vs)"
  using assms unfolding score_code_and_create_share_def
  by (auto split: option.splits sum.splits if_splits)

text \<open>
  Claim C10.  Every call of the endpoint that returns adds exactly one \<open>Share\<close> row with
  its \<open>PSShare\<close>, both \<open>is_public\<close> and \<open>is_correct\<close> equal to \<open>all_accepted\<close> of the
  returned verdicts; when all are accepted the cached prompt of (user, challenge) is stored
  on the share and removed from the cache, otherwise the stored prompt is \<open>None\<close> and the
  cache is unchanged.
\<close>

theorem share_created:
  assumes "score_code_and_create_share py world st (Some uid) cid src = Inr (vs, st')"
  shows "shares st' = shares st @
           [\<lparr>challenge_id = cid, user_id = uid, is_public = all_accepted vs,
             prompt = (if all_accepted vs then prompt_cache_for_ps_challenge st (uid, cid)
                       else None),
             ps_share = Some \<lparr>code = Some src, is_correct = all_accepted vs\<rparr>\<rparr>]
         \<and> prompt_cache_for_ps_challenge st' =
             (if all_accepted vs then (prompt_cache_for_ps_challenge st)((uid, cid) := None)
              else prompt_cache_for_ps_challenge st)
         \<and> challenges st' = challenges st"
proof -
  from assms obtain uid' where "Some uid = Some uid'"
    and st': "st' = record_submission st uid' cid src (all_accepted vs)"
    by (rule endpoint_Inr)
  then have "st' = record_submission st uid cid src (all_accepted vs)" by simp
  then show ?thesis
    by (simp add: record_submission_def pop_def create_ps_share_def)
qed

text \<open>
  Claim C5.  The verdict list the endpoint returns has one verdict per test case, in the
  order of the test cases: the \<open>i\<close>-th verdict carries the id of the \<open>i\<close>-th test case and
  is built from the result of the \<open>i\<close>-th run.
\<close>

theorem verdicts_in_order:
  assumes "score_code_and_create_share py world st u cid src = Inr (vs, st')"
    and "challenges st cid = Some (Some tcs)"
  shows "length vs = length tcs
     \<and> (\<forall>i < length tcs.
           id' (tcs ! i) = Some (testcase_id (vs ! i))
           \<and> (\<exists>r. score_code py src (or_empty (input' (tcs ! i))) (time_limit (tcs ! i))
                      (mem_limit (tcs ! i)) (world i) = Inr r
                  \<and> status (vs ! i) = status_val (tcs ! i) r
                  \<and> ScoringResult.stdout (vs ! i) = exec_result.stdout r
                  \<and> ScoringResult.stderr (vs ! i) = exec_result.stderr r
                  \<and> ScoringResult.elapsed_time (vs ! i) = exec_result.elapsed_time r
                  \<and> ScoringResult.max_memory_kb (vs ! i) = exec_result.max_memory_kb r))"
proof -
  from assms(1) obtain tcs' results where
    c: "challenges st cid = Some (Some tcs')"
    and e: "execution_results py world src tcs' = Inr results"
    and l: "scoring_loop (zip tcs' results) = Inr vs"
    by (rule endpoint_Inr)
  from c assms(2) have eq: "tcs' = tcs" by simp
  note e' = execution_results_Inr [OF e [unfolded eq]]
  note l' = scoring_loop_Inr [OF l [unfolded eq]]
  from e' have len: "length results = length tcs" by blast
  then have lz: "length (zip tcs results) = length tcs" by simp
  have "id' (tcs ! i) = Some (testcase_id (vs ! i))
           \<and> (\<exists>r. score_code py src (or_empty (input' (tcs ! i))) (time_limit (tcs ! i))
                      (mem_limit (tcs ! i)) (world i) = Inr r
                  \<and> status (vs ! i) = status_val (tcs ! i) r
                  \<and> ScoringResult.stdout (vs ! i) = exec_result.stdout r
                  \<and> ScoringResult.stderr (vs ! i) = exec_result.stderr r
                  \<and> ScoringResult.elapsed_time (vs ! i) = exec_result.elapsed_time r
                  \<and> ScoringResult.max_memory_kb (vs ! i) = exec_result.max_memory_kb r)"
    if i: "i < length tcs" for i
  proof -
    from i len have z: "zip tcs results ! i = (tcs ! i, results ! i)" by simp
    from i lz have "i < length (zip tcs results)" by (simp only:)
    with l' have
      "id' (fst (zip tcs results ! i)) = Some (testcase_id (vs ! i))
       \<and> status (vs ! i) = status_val (fst (zip tcs results ! i)) (snd (zip tcs results ! i))
       \<and> ScoringResult.stdout (vs ! i) = exec_result.stdout (snd (zip tcs results ! i))
       \<and> ScoringResult.stderr (vs ! i) = exec_result.stderr (snd (zip tcs results ! i))
       \<and> ScoringResult.elapsed_time (vs ! i) = exec_result.elapsed_time (snd (zip tcs results ! i))
       \<and> ScoringResult.max_memory_kb (vs ! i) = exec_result.max_memory_kb (snd (zip tcs results ! i))"
      by blast
    then have v: "id' (tcs ! i) = Some (testcase_id (vs ! i))
       \<and> status (vs ! i) = status_val (tcs ! i) (results ! i)
       \<and> ScoringResult.stdout (vs ! i) = exec_result.stdout (results ! i)
       \<and> ScoringResult.stderr (vs ! i) = exec_result.stderr (results ! i)
       \<and> ScoringResult.elapsed_time (vs ! i) = exec_result.elapsed_time (results ! i)
       \<and> ScoringResult.max_memory_kb (vs ! i) = exec_result.max_memory_kb (results ! i)"
      unfolding z fst_conv snd_conv .
    from e' i have "score_code py src (or_empty (input' (tcs ! i))) (time_limit (tcs ! i))
                      (mem_limit (tcs ! i)) (world i) = Inr (results ! i)" by blast
    with v show ?thesis by blast
  qed
  moreover from l' lz have "length vs = length tcs" by simp
  ultimately show ?thesis by blast
qed

lemma hello_run:
  "score_code_and_create_share sample_builtins hello_world hello_state (Some 5) 7 echo_src =
     Inr (hello_verdicts, record_submission hello_state 5 7 echo_src True)"
proof -
  have ex: "execution_results sample_builtins hello_world echo_src [hello_tc] = Inr [hello_out]"
    by (simp add: execution_results_def hello_world_def score_code_Exited_read [OF echo_src_encodable]
        after_reads_def by_returncode_def hello_out_def)
  have st: "status_val hello_tc hello_out = ACCEPTED"
    using hello_strip by (simp add: status_val_def hello_out_def)
  have idt: "id' hello_tc = Some 1" by (simp add: hello_tc_def)
  have loop: "scoring_loop [(hello_tc, hello_out)] = Inr hello_verdicts"
    by (simp add: idt st hello_verdicts_def) (simp add: hello_out_def)
  have acc: "all_accepted hello_verdicts" by (simp add: all_accepted_def hello_verdicts_def)
  have ch: "challenges hello_state 7 = Some (Some [hello_tc])" by (simp add: hello_state_def)
  show ?thesis
    by (simp add: score_code_and_create_share_def ch ex loop acc del: scoring_loop.simps)
qed


lemma pair_run:
  "score_code_and_create_share sample_builtins pair_world pair_state (Some 5) 7 echo_src =
     Inr (pair_verdicts, record_submission pair_state 5 7 echo_src False)"
proof -
  have ex: "execution_results sample_builtins pair_world echo_src [hello_tc, empty_tc] =
              Inr [hello_out, spin_out]"
    by (simp add: execution_results_def pair_world_def hello_world_def
        score_code_Exited_read [OF echo_src_encodable]
        after_reads_def by_returncode_def hello_out_def)
      (simp add: score_code_def echo_src_encodable empty_tc_def spin_out_def)
  have st: "status_val hello_tc hello_out = ACCEPTED"
    using hello_strip by (simp add: status_val_def hello_out_def)
  have idt: "id' hello_tc = Some 1" "id' empty_tc = Some 2"
    by (simp_all add: hello_tc_def empty_tc_def)
  have "error spin_out = Some (ascii ''Timeout'')" by (simp add: spin_out_def)
  then have st2: "status_val empty_tc spin_out = TIMEOUT" by (rule status_val_timeout)
  have loop: "scoring_loop [(hello_tc, hello_out), (empty_tc, spin_out)] = Inr pair_verdicts"
    by (simp add: idt st st2 pair_verdicts_def) (simp add: hello_out_def spin_out_def)
  have acc: "\<not> all_accepted pair_verdicts" by (simp add: all_accepted_def pair_verdicts_def)
  have ch: "challenges pair_state 7 = Some (Some [hello_tc, empty_tc])"
    by (simp add: pair_state_def)
  show ?thesis
    by (simp add: score_code_and_create_share_def ch ex loop acc del: scoring_loop.simps)
qed

theorem share_created_witness:
  "score_code_and_create_share sample_builtins hello_world hello_state (Some 5) 7 echo_src =
     Inr (hello_verdicts, record_submission hello_state 5 7 echo_src True)
   \<and> all_accepted hello_verdicts
   \<and> shares (record_submission hello_state 5 7 echo_src True) =
       [\<lparr>challenge_id = 7, user_id = 5, is_public = True,
         prompt = Some (ascii ''echo the input''),
         ps_share = Some \<lparr>code = Some echo_src, is_correct = True\<rparr>\<rparr>]
   \<and> prompt_cache_for_ps_challenge (record_submission hello_state 5 7 echo_src True) (5, 7) = None
   \<and> score_code_and_create_share sample_builtins pair_world pair_state (Some 5) 7 echo_src =
     Inr (pair_verdicts, record_submission pair_state 5 7 echo_src False)
   \<and> \<not> all_accepted pair_verdicts
   \<and> shares (record_submission pair_state 5 7 echo_src False) =
       [\<lparr>challenge_id = 7, user_id = 5, is_public = False, prompt = None,
         ps_share = Some \<lparr>code = Some echo_src, is_correct = False\<rparr>\<rparr>]
   \<and> prompt_cache_for_ps_challenge (record_submission pair_state 5 7 echo_src False) (5, 7) =
       Some (ascii ''echo the input'')"
proof -
  have acc: "all_accepted hello_verdicts" by (simp add: all_accepted_def hello_verdicts_def)
  have nacc: "\<not> all_accepted pair_verdicts" by (simp add: all_accepted_def pair_verdicts_def)
  from share_created [OF hello_run] acc hello_run
  have h: "score_code_and_create_share sample_builtins hello_world hello_state (Some 5) 7 echo_src =
     Inr (hello_verdicts, record_submission hello_state 5 7 echo_src True)
   \<and> all_accepted hello_verdicts
   \<and> shares (record_submission hello_state 5 7 echo_src True) =
       [\<lparr>challenge_id = 7, user_id = 5, is_public = True,
         prompt = Some (ascii ''echo the input''),
         ps_share = Some \<lparr>code = Some echo_src, is_correct = True\<rparr>\<rparr>]
   \<and> prompt_cache_for_ps_challenge (record_submission hello_state 5 7 echo_src True) (5, 7) = None"
    by (simp add: hello_state_def)
  from share_created [OF pair_run] nacc pair_run
  have p: "score_code_and_create_share sample_builtins pair_world pair_state (Some 5) 7 echo_src =
     Inr (pair_verdicts, record_submission pair_state 5 7 echo_src False)
   \<and> \<not> all_accepted pair_verdicts
   \<and> shares (record_submission pair_state 5 7 echo_src False) =
       [\<lparr>challenge_id = 7, user_id = 5, is_public = False, prompt = None,
         ps_share = Some \<lparr>code = Some echo_src, is_correct = False\<rparr>\<rparr>]
   \<and> prompt_cache_for_ps_challenge (record_submission pair_state 5 7 echo_src False) (5, 7) =
       Some (ascii ''echo the input'')"
    by (simp add: pair_state_def)
  from h p show ?thesis by (simp only: simp_thms)
qed

theorem verdicts_in_order_witness:
  "score_code_and_create_share sample_builtins pair_world pair_state (Some 5) 7 echo_src =
     Inr (pair_verdicts, record_submission pair_state 5 7 echo_src False)
   \<and> challenges pair_state 7 = Some (Some [hello_tc, empty_tc])
   \<and> length pair_verdicts = 2
   \<and> id' hello_tc = Some (testcase_id (pair_verdicts ! 0))
   \<and> id' empty_tc = Some (testcase_id (pair_verdicts ! 1))
   \<and> status (pair_verdicts ! 1) = TIMEOUT"
proof -
  have ch: "challenges pair_state 7 = Some (Some [hello_tc, empty_tc])"
    by (simp add: pair_state_def)
  note v = verdicts_in_order [OF pair_run ch]
  from v have len: "length pair_verdicts = length [hello_tc, empty_tc]" by (rule conjunct1)
  from v have a: "\<forall>i < length [hello_tc, empty_tc].
      id' ([hello_tc, empty_tc] ! i) = Some (testcase_id (pair_verdicts ! i))" by blast
  from a [rule_format, of 0] have a0: "id' hello_tc = Some (testcase_id (pair_verdicts ! 0))"
    by simp
  from a [rule_format, of 1] have a1: "id' empty_tc = Some (testcase_id (pair_verdicts ! 1))"
    by simp
  from len have l2: "length pair_verdicts = 2" by simp
  have "status (pair_verdicts ! 1) = TIMEOUT" by (simp add: pair_verdicts_def)
  with pair_run ch l2 a0 a1 show ?thesis by (simp only: simp_thms)
qed




end
